theory Spec2Isabelle
  imports Complex_Main
begin

section \<open>Spatial algebra\<close>

text \<open>
  The header \<^verbatim>\<open>MatterSubsystem.h\<close> uses the numeric types of SimTKcommon
  (\<^verbatim>\<open>Real\<close>, \<^verbatim>\<open>Vec3\<close>, \<^verbatim>\<open>Rotation\<close>, \<^verbatim>\<open>Transform\<close>, \<^verbatim>\<open>SpatialVec\<close>,
  \<^verbatim>\<open>MassProperties\<close>, \<^verbatim>\<open>Vector\<close>), whose declarations are not part of the header.
  They are modelled here from the specification's section on spatial algebra. \<^verbatim>\<open>Real\<close> is
  idealised as \<^typ>\<open>real\<close>: rounding is not modelled, so an identity that the
  specification states "within floating tolerance" is stated exactly.
\<close>

datatype Vec3 = Vec3 real real real

datatype Mat33 = Mat33 Vec3 Vec3 Vec3   \<comment> \<open>the three rows\<close>

definition zeroVec3 :: Vec3 where
  "zeroVec3 = Vec3 0 0 0"

fun vadd :: "Vec3 \<Rightarrow> Vec3 \<Rightarrow> Vec3" where
  "vadd (Vec3 a b c) (Vec3 x y z) = Vec3 (a + x) (b + y) (c + z)"

fun vsub :: "Vec3 \<Rightarrow> Vec3 \<Rightarrow> Vec3" where
  "vsub (Vec3 a b c) (Vec3 x y z) = Vec3 (a - x) (b - y) (c - z)"


fun dot :: "Vec3 \<Rightarrow> Vec3 \<Rightarrow> real" where
  "dot (Vec3 a b c) (Vec3 x y z) = a * x + b * y + c * z"

text \<open>The cross product, written \<^verbatim>\<open>%\<close> in the source.\<close>

fun cross :: "Vec3 \<Rightarrow> Vec3 \<Rightarrow> Vec3" where
  "cross (Vec3 a b c) (Vec3 x y z) = Vec3 (b * z - c * y) (c * x - a * z) (a * y - b * x)"

fun mat_vec :: "Mat33 \<Rightarrow> Vec3 \<Rightarrow> Vec3" where
  "mat_vec (Mat33 r1 r2 r3) v = Vec3 (dot r1 v) (dot r2 v) (dot r3 v)"

text \<open>The transpose, written \<^verbatim>\<open>~\<close> in the source.\<close>

fun transpose33 :: "Mat33 \<Rightarrow> Mat33" where
  "transpose33 (Mat33 (Vec3 a b c) (Vec3 d e f) (Vec3 g h i)) =
     Mat33 (Vec3 a d g) (Vec3 b e h) (Vec3 c f i)"

fun col1 :: "Mat33 \<Rightarrow> Vec3" where
  "col1 (Mat33 (Vec3 a b c) (Vec3 d e f) (Vec3 g h i)) = Vec3 a d g"

fun col2 :: "Mat33 \<Rightarrow> Vec3" where
  "col2 (Mat33 (Vec3 a b c) (Vec3 d e f) (Vec3 g h i)) = Vec3 b e h"

fun col3 :: "Mat33 \<Rightarrow> Vec3" where
  "col3 (Mat33 (Vec3 a b c) (Vec3 d e f) (Vec3 g h i)) = Vec3 c f i"

fun mat_mul :: "Mat33 \<Rightarrow> Mat33 \<Rightarrow> Mat33" where
  "mat_mul (Mat33 r1 r2 r3) M =
     Mat33 (Vec3 (dot r1 (col1 M)) (dot r1 (col2 M)) (dot r1 (col3 M)))
           (Vec3 (dot r2 (col1 M)) (dot r2 (col2 M)) (dot r2 (col3 M)))
           (Vec3 (dot r3 (col1 M)) (dot r3 (col2 M)) (dot r3 (col3 M)))"

definition identity33 :: Mat33 where
  "identity33 = Mat33 (Vec3 1 0 0) (Vec3 0 1 0) (Vec3 0 0 1)"

text \<open>
  A \<^verbatim>\<open>Rotation\<close> is a 3x3 matrix that the library keeps orthonormal. The invariant is
  a predicate on the matrix here; both products with the transpose are the identity.
\<close>

definition orthonormal :: "Mat33 \<Rightarrow> bool" where
  "orthonormal M \<longleftrightarrow>
     mat_mul (transpose33 M) M = identity33 \<and> mat_mul M (transpose33 M) = identity33"

text \<open>
  Modelled from the spec: the \<^verbatim>\<open>Transform\<close> class of SimTKcommon, absent from the
  sources. A transform is stored as a (rotation, translation) pair; \<open>xR\<close> and \<open>xT\<close> are
  the source's accessors \<^verbatim>\<open>R()\<close> and \<^verbatim>\<open>T()\<close>. Composition is rotation composition with
  translation transport \<open>T_AC = T_AB + R_AB * T_BC\<close>; applying a transform to a station
  is \<open>R * p + T\<close>.
\<close>

datatype Transform = Transform (xR: Mat33) (xT: Vec3)

definition identityTransform :: Transform where
  "identityTransform = Transform identity33 zeroVec3"

definition xform_apply :: "Transform \<Rightarrow> Vec3 \<Rightarrow> Vec3" where
  "xform_apply X p = vadd (mat_vec (xR X) p) (xT X)"



text \<open>
  A \<^verbatim>\<open>SpatialVec\<close> pairs an angular part (index 0 in the source) with a linear part
  (index 1).
\<close>

type_synonym SpatialVec = "Vec3 \<times> Vec3"

definition zeroSpatialVec :: SpatialVec where
  "zeroSpatialVec = (zeroVec3, zeroVec3)"

definition sv_sub :: "SpatialVec \<Rightarrow> SpatialVec \<Rightarrow> SpatialVec" where
  "sv_sub V W = (vsub (fst V) (fst W), vsub (snd V) (snd W))"

text \<open>
  Modelled from the spec: the \<^verbatim>\<open>MassProperties\<close> class of SimTKcommon, absent from the
  sources: mass, mass centre and inertia about the body origin. Reexpressing in another
  frame is the similarity transform of the inertia and the rotation of the mass centre;
  the mass is a scalar and does not change.
\<close>

datatype MassProperties = MassProperties (getMass: real) (getMassCenter: Vec3) (getInertia: Mat33)

definition reexpress :: "MassProperties \<Rightarrow> Mat33 \<Rightarrow> MassProperties" where
  "reexpress mp R_AB =
     MassProperties (getMass mp)
       (mat_vec (transpose33 R_AB) (getMassCenter mp))
       (mat_mul (transpose33 R_AB) (mat_mul (getInertia mp) R_AB))"

section \<open>Stages, states and the body tree\<close>

datatype Stage = Topology | Model | Instance | Time | Position | Velocity | Dynamics | Acceleration

fun stage_rank :: "Stage \<Rightarrow> nat" where
  "stage_rank Topology = 0"
| "stage_rank Model = 1"
| "stage_rank Instance = 2"
| "stage_rank Time = 3"
| "stage_rank Position = 4"
| "stage_rank Velocity = 5"
| "stage_rank Dynamics = 6"
| "stage_rank Acceleration = 7"

instantiation Stage :: linorder
begin

definition less_eq_Stage :: "Stage \<Rightarrow> Stage \<Rightarrow> bool" where
  "less_eq_Stage g h \<longleftrightarrow> stage_rank g \<le> stage_rank h"

definition less_Stage :: "Stage \<Rightarrow> Stage \<Rightarrow> bool" where
  "less_Stage g h \<longleftrightarrow> stage_rank g < stage_rank h"

instance
proof
  fix x y z :: Stage
  show "(x < y) = (x \<le> y \<and> \<not> y \<le> x)"
    by (auto simp: less_eq_Stage_def less_Stage_def)
  show "x \<le> x"
    by (simp add: less_eq_Stage_def)
  show "x \<le> y \<Longrightarrow> y \<le> z \<Longrightarrow> x \<le> z"
    by (simp add: less_eq_Stage_def)
  show "x \<le> y \<Longrightarrow> y \<le> x \<Longrightarrow> x = y"
    by (cases x; cases y; simp add: less_eq_Stage_def)
  show "x \<le> y \<or> y \<le> x"
    by (auto simp: less_eq_Stage_def)
qed

end

text \<open>
  Modelled from the spec: the errors of the error-handling design. A stage violation names
  the required stage and the actual one. \<open>ProjectionNonconvergence\<close> is the name the
  design gives to a projector that exhausts its cap; it is listed for completeness, and no
  operation of the model returns it.
\<close>

datatype error =
  StageViolation Stage Stage | DomainError | InvalidTopology | ProjectionNonconvergence

text \<open>
  Modelled from the spec: the body tree behind the topology-stage counts
  \<^verbatim>\<open>getNBodies\<close>, \<^verbatim>\<open>getNParticles\<close> and \<^verbatim>\<open>getNMobilities\<close>, which the header only
  declares. Body 0 is Ground; every body carries the id of its parent and the numbers of
  generalized coordinates and speeds of its mobilizer (none for Ground). The counts are
  naturals (the source returns \<^verbatim>\<open>int\<close>).
\<close>

record Body =
  parent :: nat
  nq :: nat
  nu :: nat

record MatterSubsystem =
  bodies :: "Body list"
  nParticles :: nat

definition GroundId :: nat where
  "GroundId = 0"

definition getNBodies :: "MatterSubsystem \<Rightarrow> nat" where
  "getNBodies m = length (bodies m)"

definition getNParticles :: "MatterSubsystem \<Rightarrow> nat" where
  "getNParticles m = nParticles m"

definition getNMobilities :: "MatterSubsystem \<Rightarrow> nat" where
  "getNMobilities m = sum_list (map nu (bodies m))"

definition qStart :: "MatterSubsystem \<Rightarrow> nat \<Rightarrow> nat" where
  "qStart m b = sum_list (map nq (take b (bodies m)))"

definition uStart :: "MatterSubsystem \<Rightarrow> nat \<Rightarrow> nat" where
  "uStart m b = sum_list (map nu (take b (bodies m)))"

text \<open>
  Modelled from the spec: the \<^verbatim>\<open>State\<close> class, absent from the sources: the realized
  stage marker, the vectors q and u, the time, and the kinematic cache (per body the
  transform to Ground and the spatial velocity; the position-level and velocity-level
  constraint errors with their diagonal weights), together with the instance-stage mass
  properties.
\<close>

record State =
  realized :: Stage
  qvec :: "real list"
  uvec :: "real list"
  time :: real
  massProps :: "MassProperties list"
  bodyPosition :: "Transform list"
  bodyVelocity :: "SpatialVec list"
  qErr :: "real list"
  qErrWeights :: "real list"
  uErr :: "real list"
  uErrWeights :: "real list"

definition getStage :: "State \<Rightarrow> Stage" where
  "getStage s = realized s"

text \<open>
  A read of a quantity cached at stage \<open>g\<close> is gated by the stage ladder: below \<open>g\<close>
  it is a stage violation, and nothing is recomputed. An out-of-range body id is a domain
  error. The stage is checked first.
\<close>

definition stageCheck :: "State \<Rightarrow> Stage \<Rightarrow> 'a \<Rightarrow> error + 'a" where
  "stageCheck s g x = (if getStage s < g then Inl (StageViolation g (getStage s)) else Inr x)"

definition bodyCheck :: "MatterSubsystem \<Rightarrow> nat \<Rightarrow> 'a \<Rightarrow> error + 'a" where
  "bodyCheck m b x = (if b < getNBodies m then Inr x else Inl DomainError)"

definition bind :: "error + 'a \<Rightarrow> ('a \<Rightarrow> error + 'b) \<Rightarrow> error + 'b" where
  "bind r f = (case r of Inl e \<Rightarrow> Inl e | Inr x \<Rightarrow> f x)"

text \<open>
  Modelled from the spec: the stage-gated accessors, which the header only declares.
  \<^verbatim>\<open>getBodyMassProperties\<close> is an Instance-stage response, \<^verbatim>\<open>getBodyPosition\<close> a
  Position-stage response and \<^verbatim>\<open>getBodyVelocity\<close> a Velocity-stage response.
\<close>

definition getBodyMassProperties :: "MatterSubsystem \<Rightarrow> State \<Rightarrow> nat \<Rightarrow> error + MassProperties" where
  "getBodyMassProperties m s b =
     bind (stageCheck s Instance ()) (\<lambda>_. bodyCheck m b (massProps s ! b))"

definition getBodyPosition :: "MatterSubsystem \<Rightarrow> State \<Rightarrow> nat \<Rightarrow> error + Transform" where
  "getBodyPosition m s b =
     bind (stageCheck s Position ()) (\<lambda>_. bodyCheck m b (bodyPosition s ! b))"

definition getBodyVelocity :: "MatterSubsystem \<Rightarrow> State \<Rightarrow> nat \<Rightarrow> error + SpatialVec" where
  "getBodyVelocity m s b =
     bind (stageCheck s Velocity ()) (\<lambda>_. bodyCheck m b (bodyVelocity s ! b))"

section \<open>The inline operators of the header\<close>

text \<open>
  C++ leaves the order in which the operands of a binary operator are evaluated
  unspecified; the model reads them from left to right. The result does not depend on the
  order: below the required stage every read fails with the same stage violation, and at
  or above it an out-of-range body id is a domain error whichever operand is read first.
\<close>

definition calcBodyMassPropertiesInBody ::
    "MatterSubsystem \<Rightarrow> State \<Rightarrow> nat \<Rightarrow> nat \<Rightarrow> error + MassProperties" where
  "calcBodyMassPropertiesInBody m s objectBodyA inBodyB =
     bind (getBodyMassProperties m s objectBodyA) (\<lambda>mp.
       if inBodyB = objectBodyA then Inr mp
       else
         bind (getBodyPosition m s objectBodyA) (\<lambda>X_GA.
           let R_AG = transpose33 (xR X_GA) in
           bind (if inBodyB \<noteq> GroundId
                 then bind (getBodyPosition m s inBodyB) (\<lambda>X_GB. Inr (mat_mul R_AG (xR X_GB)))
                 else Inr R_AG) (\<lambda>R_AB.
             Inr (reexpress mp R_AB))))"

definition getBodyRotation :: "MatterSubsystem \<Rightarrow> State \<Rightarrow> nat \<Rightarrow> error + Mat33" where
  "getBodyRotation m s body = bind (getBodyPosition m s body) (\<lambda>X. Inr (xR X))"

definition getBodyLocation :: "MatterSubsystem \<Rightarrow> State \<Rightarrow> nat \<Rightarrow> error + Vec3" where
  "getBodyLocation m s body = bind (getBodyPosition m s body) (\<lambda>X. Inr (xT X))"

definition getBodyAngularVelocity :: "MatterSubsystem \<Rightarrow> State \<Rightarrow> nat \<Rightarrow> error + Vec3" where
  "getBodyAngularVelocity m s body = bind (getBodyVelocity m s body) (\<lambda>V. Inr (fst V))"

definition getBodyLinearVelocity :: "MatterSubsystem \<Rightarrow> State \<Rightarrow> nat \<Rightarrow> error + Vec3" where
  "getBodyLinearVelocity m s body = bind (getBodyVelocity m s body) (\<lambda>V. Inr (snd V))"

definition calcStationLocation :: "MatterSubsystem \<Rightarrow> State \<Rightarrow> nat \<Rightarrow> Vec3 \<Rightarrow> error + Vec3" where
  "calcStationLocation m s bodyB stationB =
     bind (getBodyPosition m s bodyB) (\<lambda>X_GB. Inr (xform_apply X_GB stationB))"


definition calcVectorOrientation :: "MatterSubsystem \<Rightarrow> State \<Rightarrow> nat \<Rightarrow> Vec3 \<Rightarrow> error + Vec3" where
  "calcVectorOrientation m s bodyB vectorB =
     bind (getBodyRotation m s bodyB) (\<lambda>R_GB. Inr (mat_vec R_GB vectorB))"

definition calcVectorOrientationInBody ::
    "MatterSubsystem \<Rightarrow> State \<Rightarrow> nat \<Rightarrow> Vec3 \<Rightarrow> nat \<Rightarrow> error + Vec3" where
  "calcVectorOrientationInBody m s bodyB vectorB bodyA =
     bind (getBodyRotation m s bodyA) (\<lambda>R_GA.
       bind (calcVectorOrientation m s bodyB vectorB) (\<lambda>vectorInG.
         Inr (mat_vec (transpose33 R_GA) vectorInG)))"

definition calcStationVelocity :: "MatterSubsystem \<Rightarrow> State \<Rightarrow> nat \<Rightarrow> Vec3 \<Rightarrow> error + Vec3" where
  "calcStationVelocity m s bodyB stationB =
     bind (getBodyVelocity m s bodyB) (\<lambda>V_GB.
       bind (calcVectorOrientation m s bodyB stationB) (\<lambda>stationB_G.
         Inr (vadd (snd V_GB) (cross (fst V_GB) stationB_G))))"

definition calcStationVelocityInBody ::
    "MatterSubsystem \<Rightarrow> State \<Rightarrow> nat \<Rightarrow> Vec3 \<Rightarrow> nat \<Rightarrow> error + Vec3" where
  "calcStationVelocityInBody m s bodyB stationB bodyA =
     bind (getBodyVelocity m s bodyB) (\<lambda>V_GB.
       bind (getBodyVelocity m s bodyA) (\<lambda>V_GA.
         let Vdiff_AB = sv_sub V_GB V_GA in
         bind (calcStationLocation m s bodyB stationB) (\<lambda>locB.
           bind (getBodyLocation m s bodyA) (\<lambda>locA.
             let stationA_G = vsub locB locA;
                 v_AsB_G = vadd (snd Vdiff_AB) (cross (fst Vdiff_AB) stationA_G) in
             bind (getBodyRotation m s bodyA) (\<lambda>R_GA.
               Inr (mat_vec (transpose33 R_GA) v_AsB_G))))))"

text \<open>
  \<^verbatim>\<open>resetForces\<close> resizes each array and then sets it to zero. The \<^verbatim>\<open>Vector\<close> class is
  not part of the header: \<open>resize\<close> keeps the leading entries and fills new ones with a
  value \<open>junk\<close> that the caller of the model chooses, since the library leaves new entries
  uninitialised.
\<close>

definition resize :: "'a \<Rightarrow> nat \<Rightarrow> 'a list \<Rightarrow> 'a list" where
  "resize junk n xs = take n xs @ replicate (n - length xs) junk"

definition setToZero :: "'a \<Rightarrow> 'a list \<Rightarrow> 'a list" where
  "setToZero z xs = map (\<lambda>_. z) xs"

definition resetForces ::
    "MatterSubsystem \<Rightarrow> SpatialVec \<Rightarrow> Vec3 \<Rightarrow> real \<Rightarrow> SpatialVec list \<Rightarrow> Vec3 list \<Rightarrow> real list
       \<Rightarrow> SpatialVec list \<times> Vec3 list \<times> real list" where
  "resetForces m junkB junkP junkM bodyForces particleForces mobilityForces =
     (setToZero zeroSpatialVec (resize junkB (getNBodies m) bodyForces),
      setToZero zeroVec3 (resize junkP (getNParticles m) particleForces),
      setToZero 0 (resize junkM (getNMobilities m) mobilityForces))"



section \<open>The stage ladder\<close>

text \<open>
  Modelled from the spec: the stage ladder, absent from the sources. Invalidating stage
  \<open>g\<close> drops the realized stage to the stage before \<open>g\<close> when it was at \<open>g\<close> or above
  ("drop realized stage to k-1"). Mutating q invalidates Position, mutating u invalidates
  Velocity. Neither touches the cache arrays.
\<close>

fun stage_pred :: "Stage \<Rightarrow> Stage" where
  "stage_pred Topology = Topology"
| "stage_pred Model = Topology"
| "stage_pred Instance = Model"
| "stage_pred Time = Instance"
| "stage_pred Position = Time"
| "stage_pred Velocity = Position"
| "stage_pred Dynamics = Velocity"
| "stage_pred Acceleration = Dynamics"

fun stage_succ :: "Stage \<Rightarrow> Stage" where
  "stage_succ Topology = Model"
| "stage_succ Model = Instance"
| "stage_succ Instance = Time"
| "stage_succ Time = Position"
| "stage_succ Position = Velocity"
| "stage_succ Velocity = Dynamics"
| "stage_succ Dynamics = Acceleration"
| "stage_succ Acceleration = Acceleration"

definition invalidate :: "State \<Rightarrow> Stage \<Rightarrow> State" where
  "invalidate s g = s\<lparr>realized := min (realized s) (stage_pred g)\<rparr>"

definition updQ :: "State \<Rightarrow> real list \<Rightarrow> State" where
  "updQ s q' = invalidate (s\<lparr>qvec := q'\<rparr>) Position"

definition updU :: "State \<Rightarrow> real list \<Rightarrow> State" where
  "updU s u' = invalidate (s\<lparr>uvec := u'\<rparr>) Velocity"

text \<open>
  Modelled from the spec: the external per-stage realize hooks and the linear algebra of
  the constraint projector, which are parameters of the model. The instance hook returns
  the per-body mass properties, the position hook the per-body transforms and the
  position-level constraint errors, the velocity hook the per-body spatial velocities and
  the velocity-level constraint errors. \<open>qCorrection\<close> is the minimum weighted-norm
  correction \<open>\<Delta> = - W\<^sup>-\<^sup>1 G\<^sup>t (G W\<^sup>-\<^sup>1 G\<^sup>t)\<^sup>-\<^sup>1 e\<close> at a realized state and \<open>qProjection\<close>
  the same projection operator applied to the auxiliary vector; likewise for u.
  \<open>iterationCap\<close> is the fixed iteration cap of the position projection.
\<close>

record Hooks =
  instanceHook :: "State \<Rightarrow> MassProperties list"
  positionHook :: "State \<Rightarrow> Transform list \<times> real list"
  velocityHook :: "State \<Rightarrow> SpatialVec list \<times> real list"
  qCorrection :: "State \<Rightarrow> real list"
  uCorrection :: "State \<Rightarrow> real list"
  qProjection :: "State \<Rightarrow> real list \<Rightarrow> real list"
  uProjection :: "State \<Rightarrow> real list \<Rightarrow> real list"
  iterationCap :: nat

text \<open>
  Realizing a stage stores what its hook returns and moves the marker. The cached
  quantities of the Model, Time, Dynamics and Acceleration stages are not part of the
  state record, so realizing those stages only moves the marker.
\<close>

definition realizeStage :: "Hooks \<Rightarrow> Stage \<Rightarrow> State \<Rightarrow> State" where
  "realizeStage h g s =
     (case g of
        Instance \<Rightarrow> s\<lparr>realized := Instance, massProps := instanceHook h s\<rparr>
      | Position \<Rightarrow>
          s\<lparr>realized := Position,
            bodyPosition := fst (positionHook h s), qErr := snd (positionHook h s)\<rparr>
      | Velocity \<Rightarrow>
          s\<lparr>realized := Velocity,
            bodyVelocity := fst (velocityHook h s), uErr := snd (velocityHook h s)\<rparr>
      | _ \<Rightarrow> s\<lparr>realized := g\<rparr>)"

text \<open>
  \<^verbatim>\<open>advanceTo\<close> recomputes every stage between the realized one and the target, in order.
\<close>

function advanceTo :: "Hooks \<Rightarrow> State \<Rightarrow> Stage \<Rightarrow> State" where
  "advanceTo h s target =
     (if realized s < target
      then advanceTo h (realizeStage h (stage_succ (realized s)) s) target
      else s)"
  by pat_completeness auto
termination
proof (relation "measure (\<lambda>(h, s, target). stage_rank target - stage_rank (realized s))")
  show "wf (measure (\<lambda>(h, s, target). stage_rank target - stage_rank (realized s)))"
    by simp
next
  fix h :: Hooks and s :: State and target :: Stage
  assume below: "realized s < target"
  have marker: "realized (realizeStage h (stage_succ (realized s)) s) = stage_succ (realized s)"
    by (cases "stage_succ (realized s)") (simp_all add: realizeStage_def)
  from below have "stage_rank (realized s) < stage_rank target"
    by (simp add: less_Stage_def)
  moreover from this have "stage_rank (stage_succ (realized s)) = Suc (stage_rank (realized s))"
    by (cases "realized s"; cases target; simp)
  ultimately show "((h, realizeStage h (stage_succ (realized s)) s, target), (h, s, target))
        \<in> measure (\<lambda>(h, s, target). stage_rank target - stage_rank (realized s))"
    using marker by simp
qed

text \<open>
  Modelled from the spec: the mobilizer coordinate setters, which the header only declares
  (Model-stage solvers). The body id and the mobility index are checked against the body
  tree; the entry of q (resp. u) that belongs to the mobilizer is overwritten.
\<close>

definition setMobilizerQ ::
    "MatterSubsystem \<Rightarrow> State \<Rightarrow> nat \<Rightarrow> nat \<Rightarrow> real \<Rightarrow> error + State" where
  "setMobilizerQ m s b mobilityIndex mobilityValue =
     bind (stageCheck s Model ()) (\<lambda>_.
       bind (bodyCheck m b ()) (\<lambda>_.
         if mobilityIndex < nq (bodies m ! b)
         then Inr (updQ s ((qvec s)[qStart m b + mobilityIndex := mobilityValue]))
         else Inl DomainError))"

definition setMobilizerU ::
    "MatterSubsystem \<Rightarrow> State \<Rightarrow> nat \<Rightarrow> nat \<Rightarrow> real \<Rightarrow> error + State" where
  "setMobilizerU m s b mobilityIndex mobilityValue =
     bind (stageCheck s Model ()) (\<lambda>_.
       bind (bodyCheck m b ()) (\<lambda>_.
         if mobilityIndex < nu (bodies m ! b)
         then Inr (updU s ((uvec s)[uStart m b + mobilityIndex := mobilityValue]))
         else Inl DomainError))"

section \<open>The constraint projector\<close>

text \<open>
  Modelled from the spec: the weighted constraint-error norm \<open>sqrt (e\<^sup>t W e)\<close> with a
  diagonal \<open>W\<close>, behind \<^verbatim>\<open>calcQConstraintNorm\<close> and \<^verbatim>\<open>calcUConstraintNorm\<close>, which the
  header only declares as Position-stage and Velocity-stage responses.
\<close>

definition weightedNorm :: "real list \<Rightarrow> real list \<Rightarrow> real" where
  "weightedNorm e w = sqrt (sum_list (map2 (\<lambda>ei wi. ei * wi * ei) e w))"

definition qNorm :: "State \<Rightarrow> real" where
  "qNorm s = weightedNorm (qErr s) (qErrWeights s)"

definition uNorm :: "State \<Rightarrow> real" where
  "uNorm s = weightedNorm (uErr s) (uErrWeights s)"

definition calcQConstraintNorm :: "State \<Rightarrow> error + real" where
  "calcQConstraintNorm s = stageCheck s Position (qNorm s)"

definition calcUConstraintNorm :: "State \<Rightarrow> error + real" where
  "calcUConstraintNorm s = stageCheck s Velocity (uNorm s)"

text \<open>Adding a correction to a coordinate vector keeps the vector's length.\<close>

fun vec_add :: "real list \<Rightarrow> real list \<Rightarrow> real list" where
  "vec_add [] ds = []"
| "vec_add (x # xs) [] = x # xs"
| "vec_add (x # xs) (d # ds) = (x + d) # vec_add xs ds"

text \<open>
  One correction step: apply the correction to q (which invalidates Position) and
  re-evaluate the constraint errors at the corrected q by realizing Position again.
\<close>

definition correctQ :: "Hooks \<Rightarrow> State \<Rightarrow> State" where
  "correctQ h s = advanceTo h (updQ s (vec_add (qvec s) (qCorrection h s))) Position"

definition correctU :: "Hooks \<Rightarrow> State \<Rightarrow> State" where
  "correctU h s = advanceTo h (updU s (vec_add (uvec s) (uCorrection h s))) Velocity"

text \<open>
  The projector takes the state and the auxiliary vector by reference. The model threads
  both through the call together with the log of the writes performed on them, so that
  "modified at all" is a property of the call: every write goes through \<open>putState\<close> or
  \<open>putYErr\<close>, and both append to the log.
\<close>

datatype WriteEvent = StateWrite State | YErrWrite "real list"

record World =
  wState :: State
  wYErr :: "real list"
  wLog :: "WriteEvent list"

definition putState :: "State \<Rightarrow> World \<Rightarrow> World" where
  "putState s w = w\<lparr>wState := s, wLog := wLog w @ [StateWrite s]\<rparr>"

definition putYErr :: "real list \<Rightarrow> World \<Rightarrow> World" where
  "putYErr y w = w\<lparr>wYErr := y, wLog := wLog w @ [YErrWrite y]\<rparr>"

text \<open>
  The iteration after a correction has been applied: \<open>best\<close> is the best iterate seen
  before the current one (the state at entry is the first iterate), \<open>n\<close> the number of
  corrections still allowed. The loop stops when the norm is at or below \<open>tol\<close>; when the
  cap is reached without that, the best iterate is kept. Within the contract
  \<open>targetTol \<le> tol\<close> the early exit cannot fire again inside the loop, since the loop
  goes on only while the norm is above \<open>tol\<close>.
\<close>

definition better :: "(State \<Rightarrow> real) \<Rightarrow> State \<Rightarrow> State \<Rightarrow> State" where
  "better nrm best cur = (if nrm cur \<le> nrm best then cur else best)"

fun projectLoop ::
    "(State \<Rightarrow> real) \<Rightarrow> (State \<Rightarrow> State) \<Rightarrow> real \<Rightarrow> nat \<Rightarrow> State \<Rightarrow> World \<Rightarrow> World" where
  "projectLoop nrm step tol 0 best w =
     (if nrm (wState w) \<le> tol then w
      else if nrm (wState w) \<le> nrm best then w
      else putState best w)"
| "projectLoop nrm step tol (Suc n) best w =
     (if nrm (wState w) \<le> tol then w
      else projectLoop nrm step tol n (better nrm best (wState w))
             (putState (step (wState w)) w))"

text \<open>
  The algorithm of the projector for the stage \<open>g\<close> (Position or Velocity): the early exit
  on \<open>targetTol\<close>, the first correction, the iteration up to the cap, the projection of the
  auxiliary vector, and the lowering of the realized stage to no higher than \<open>g\<close>. The
  first correction is always applied once the early exit is not taken; \<open>cap\<close> bounds the
  total number of corrections.
\<close>

definition projectConstraints ::
    "Stage \<Rightarrow> (State \<Rightarrow> real) \<Rightarrow> (State \<Rightarrow> State) \<Rightarrow> (State \<Rightarrow> real list \<Rightarrow> real list) \<Rightarrow> nat
       \<Rightarrow> real \<Rightarrow> real \<Rightarrow> World \<Rightarrow> error + (bool \<times> World)" where
  "projectConstraints g nrm step proj cap tol targetTol w =
     (if realized (wState w) < g then Inl (StageViolation g (realized (wState w)))
      else if nrm (wState w) \<le> targetTol then Inr (False, w)
      else
        let w1 = projectLoop nrm step tol (cap - 1) (wState w) (putState (step (wState w)) w);
            w2 = putYErr (proj (wState w1) (wYErr w1)) w1;
            w3 = putState (invalidate (wState w2) (stage_succ g)) w2
        in Inr (True, w3))"

text \<open>
  \<^verbatim>\<open>projectQConstraints\<close> and \<^verbatim>\<open>projectUConstraints\<close> return the boolean; the state and
  the auxiliary vector after the call, and the writes performed, are the other components
  of the result. The velocity case is linear and is given one correction.
\<close>

definition initWorld :: "State \<Rightarrow> real list \<Rightarrow> World" where
  "initWorld s y_err = \<lparr>wState = s, wYErr = y_err, wLog = []\<rparr>"

definition projectQConstraints ::
    "Hooks \<Rightarrow> State \<Rightarrow> real list \<Rightarrow> real \<Rightarrow> real \<Rightarrow> error + (bool \<times> World)" where
  "projectQConstraints h s y_err tol targetTol =
     projectConstraints Position qNorm (correctQ h) (qProjection h) (iterationCap h)
       tol targetTol (initWorld s y_err)"

definition projectUConstraints ::
    "Hooks \<Rightarrow> State \<Rightarrow> real list \<Rightarrow> real \<Rightarrow> real \<Rightarrow> error + (bool \<times> World)" where
  "projectUConstraints h s y_err tol targetTol =
     projectConstraints Velocity uNorm (correctU h) (uProjection h) 1
       tol targetTol (initWorld s y_err)"


section \<open>Fixtures\<close>

text \<open>
  A pendulum: Ground and one body on a one-degree-of-freedom mobilizer, turned a quarter
  turn about the z axis and spinning about it.
\<close>

definition exMatter :: MatterSubsystem where
  "exMatter = \<lparr>bodies = [\<lparr>parent = 0, nq = 0, nu = 0\<rparr>, \<lparr>parent = 0, nq = 1, nu = 1\<rparr>],
     nParticles = 2\<rparr>"

definition quarterTurn :: Mat33 where
  "quarterTurn = Mat33 (Vec3 0 (- 1) 0) (Vec3 1 0 0) (Vec3 0 0 1)"

definition exState :: State where
  "exState = \<lparr>realized = Velocity, qvec = [1], uvec = [2], time = 0,
     massProps = [MassProperties 0 zeroVec3 identity33, MassProperties 3 (Vec3 1 0 0) identity33],
     bodyPosition = [identityTransform, Transform quarterTurn (Vec3 1 2 3)],
     bodyVelocity = [zeroSpatialVec, (Vec3 0 0 2, Vec3 1 0 0)],
     qErr = [2], qErrWeights = [1], uErr = [0], uErrWeights = [1]\<rparr>"

definition exStateInstance :: State where
  "exStateInstance = exState\<lparr>realized := Instance\<rparr>"

text \<open>
  A one-coordinate system with the single position constraint \<open>x\<^sup>3 - 2 x + 2 = 0\<close> and
  the single velocity constraint \<open>v - 5 = 0\<close>, both with weight 1. \<open>qCorrection\<close> is the
  Newton step \<open>- e / G\<close>, to which the minimum-norm correction reduces for one equation
  in one coordinate; the velocity correction is deliberately a half step, so that one
  correction does not converge. Both projections annihilate the auxiliary vector.
\<close>

definition cubicErr :: "real \<Rightarrow> real" where
  "cubicErr x = x * x * x - 2 * x + 2"

definition cubicSlope :: "real \<Rightarrow> real" where
  "cubicSlope x = 3 * x * x - 2"

definition firstOf :: "real list \<Rightarrow> real" where
  "firstOf xs = (case xs of [] \<Rightarrow> 0 | x # _ \<Rightarrow> x)"

definition cubicHooks :: Hooks where
  "cubicHooks = \<lparr>
     instanceHook = massProps,
     positionHook = (\<lambda>s. (bodyPosition s, [cubicErr (firstOf (qvec s))])),
     velocityHook = (\<lambda>s. (bodyVelocity s, [firstOf (uvec s) - 5])),
     qCorrection = (\<lambda>s. [- cubicErr (firstOf (qvec s)) / cubicSlope (firstOf (qvec s))]),
     uCorrection = (\<lambda>s. [- (firstOf (uvec s) - 5) / 2]),
     qProjection = (\<lambda>s y. map (\<lambda>_. 0) y),
     uProjection = (\<lambda>s y. map (\<lambda>_. 0) y),
     iterationCap = 2\<rparr>"

definition cubicState :: "Stage \<Rightarrow> real \<Rightarrow> real \<Rightarrow> State" where
  "cubicState g x v = \<lparr>realized = g, qvec = [x], uvec = [v], time = 0,
     massProps = [MassProperties 0 zeroVec3 identity33, MassProperties 3 (Vec3 1 0 0) identity33],
     bodyPosition = [identityTransform, Transform quarterTurn (Vec3 1 2 3)],
     bodyVelocity = [zeroSpatialVec, (Vec3 0 0 2, Vec3 1 0 0)],
     qErr = [cubicErr x], qErrWeights = [1], uErr = [v - 5], uErrWeights = [1]\<rparr>"

definition worldAfter :: "State \<Rightarrow> real list \<Rightarrow> WriteEvent list \<Rightarrow> World" where
  "worldAfter s y ws = \<lparr>wState = s, wYErr = y, wLog = ws\<rparr>"

definition cubicWrites :: "State \<Rightarrow> WriteEvent list" where
  "cubicWrites s = [StateWrite s, YErrWrite [0], StateWrite s]"

section \<open>Properties of the spatial algebra\<close>









lemma mat_vec_zero: "mat_vec A zeroVec3 = zeroVec3"
  by (cases A rule: transpose33.cases) (simp add: zeroVec3_def)



lemma vsub_self: "vsub v v = zeroVec3"
  by (cases v) (simp add: zeroVec3_def)

lemma vadd_zero_left: "vadd zeroVec3 v = v"
  by (cases v) (simp add: zeroVec3_def)

lemma cross_zero_left: "cross zeroVec3 v = zeroVec3"
  by (cases v) (simp add: zeroVec3_def)







section \<open>Stage-gated reads\<close>

lemma bind_Inr [simp]: "bind (Inr x) f = f x"
  by (simp add: bind_def)

lemma bind_Inl [simp]: "bind (Inl e) f = Inl e"
  by (simp add: bind_def)

lemma getBodyPosition_realized:
  "Position \<le> getStage s \<Longrightarrow> b < getNBodies m \<Longrightarrow> getBodyPosition m s b = Inr (bodyPosition s ! b)"
  by (simp add: getBodyPosition_def stageCheck_def bodyCheck_def not_less [symmetric])

lemma getBodyVelocity_realized:
  "Velocity \<le> getStage s \<Longrightarrow> b < getNBodies m \<Longrightarrow> getBodyVelocity m s b = Inr (bodyVelocity s ! b)"
  by (simp add: getBodyVelocity_def stageCheck_def bodyCheck_def not_less [symmetric])

lemma getBodyMassProperties_realized:
  "Instance \<le> getStage s \<Longrightarrow> b < getNBodies m \<Longrightarrow>
     getBodyMassProperties m s b = Inr (massProps s ! b)"
  by (simp add: getBodyMassProperties_def stageCheck_def bodyCheck_def not_less [symmetric])

lemma getBodyPosition_below:
  "getStage s < Position \<Longrightarrow> getBodyPosition m s b = Inl (StageViolation Position (getStage s))"
  by (simp add: getBodyPosition_def stageCheck_def)

lemma Velocity_imp_Position: "Velocity \<le> g \<Longrightarrow> Position \<le> g"
  by (simp add: less_eq_Stage_def)

lemmas ex_defs = exMatter_def exState_def quarterTurn_def getStage_def getNBodies_def
  less_eq_Stage_def less_Stage_def orthonormal_def identity33_def zeroVec3_def identityTransform_def
  zeroSpatialVec_def


section \<open>Cross-frame queries\<close>







text \<open>
  Claim C7. For a state realized at least to Velocity and a body \<open>B\<close> of the tree: the
  velocity of a body-fixed station \<open>p\<close> is the cached linear velocity plus the cached
  angular velocity crossed with \<open>R_GB * p\<close>.
\<close>

theorem calcStationVelocity_transport:
  assumes "Velocity \<le> getStage s" and "bodyB < getNBodies m"
  shows "calcStationVelocity m s bodyB stationB =
     Inr (vadd (snd (bodyVelocity s ! bodyB))
            (cross (fst (bodyVelocity s ! bodyB)) (mat_vec (xR (bodyPosition s ! bodyB)) stationB)))"
  using assms
  by (simp add: calcStationVelocity_def calcVectorOrientation_def getBodyRotation_def
      getBodyVelocity_realized getBodyPosition_realized Velocity_imp_Position)


theorem calcStationVelocity_transport_witness:
  "Velocity \<le> getStage exState \<and> 1 < getNBodies exMatter
   \<and> calcStationVelocity exMatter exState 1 (Vec3 1 0 0) = Inr (Vec3 (- 1) 0 0)"
proof -
  have h1: "Velocity \<le> getStage exState" and h2: "1 < getNBodies exMatter"
    by (simp_all add: ex_defs)
  from calcStationVelocity_transport [OF h1 h2, of "Vec3 1 0 0"]
  have "calcStationVelocity exMatter exState 1 (Vec3 1 0 0) = Inr (Vec3 (- 1) 0 0)"
    by (simp add: exState_def quarterTurn_def)
  with h1 h2 show ?thesis by simp
qed

text \<open>
  Claim C10. For a state realized at least to Velocity and a body \<open>B\<close> of the tree: the
  velocity of a station of \<open>B\<close> relative to \<open>B\<close> itself is the zero vector.
\<close>

theorem calcStationVelocityInBody_same_body:
  assumes "Velocity \<le> getStage s" and "bodyB < getNBodies m"
  shows "calcStationVelocityInBody m s bodyB stationB bodyB = Inr zeroVec3"
  using assms
  by (simp add: calcStationVelocityInBody_def calcStationLocation_def getBodyLocation_def
      getBodyRotation_def getBodyVelocity_realized getBodyPosition_realized Velocity_imp_Position
      sv_sub_def vsub_self cross_zero_left vadd_zero_left mat_vec_zero)


theorem calcStationVelocityInBody_same_body_witness:
  "Velocity \<le> getStage exState \<and> 1 < getNBodies exMatter
   \<and> calcStationVelocityInBody exMatter exState 1 (Vec3 4 5 6) 1 = Inr (Vec3 0 0 0)"
proof -
  have h1: "Velocity \<le> getStage exState" and h2: "1 < getNBodies exMatter"
    by (simp_all add: ex_defs)
  from calcStationVelocityInBody_same_body [OF h1 h2, of "Vec3 4 5 6"] h1 h2
  show ?thesis by (simp add: zeroVec3_def)
qed

text \<open>
  Claim C9. The same-body call of \<^verbatim>\<open>calcBodyMassPropertiesInBody\<close> is the Instance-stage
  read of the stored mass properties and nothing more: at any stage from Instance on it
  returns them unchanged, also below Position. With two different bodies the Position-stage
  cache is consulted, so below Position the call is a stage violation.
\<close>

theorem calcBodyMassPropertiesInBody_same_body:
  "calcBodyMassPropertiesInBody m s objectBodyA objectBodyA = getBodyMassProperties m s objectBodyA
   \<and> (Instance \<le> getStage s \<and> objectBodyA < getNBodies m \<longrightarrow>
        calcBodyMassPropertiesInBody m s objectBodyA objectBodyA = Inr (massProps s ! objectBodyA))
   \<and> (Instance \<le> getStage s \<and> objectBodyA < getNBodies m \<and> inBodyB \<noteq> objectBodyA
        \<and> getStage s < Position \<longrightarrow>
        calcBodyMassPropertiesInBody m s objectBodyA inBodyB
          = Inl (StageViolation Position (getStage s)))"
proof -
  have same: "calcBodyMassPropertiesInBody m s objectBodyA objectBodyA
      = getBodyMassProperties m s objectBodyA"
    by (cases "getBodyMassProperties m s objectBodyA")
       (simp_all add: calcBodyMassPropertiesInBody_def)
  moreover have "calcBodyMassPropertiesInBody m s objectBodyA inBodyB
      = Inl (StageViolation Position (getStage s))"
    if "Instance \<le> getStage s" "objectBodyA < getNBodies m" "inBodyB \<noteq> objectBodyA"
      "getStage s < Position"
    using that
    by (simp add: calcBodyMassPropertiesInBody_def getBodyMassProperties_realized
        getBodyPosition_below)
  ultimately show ?thesis
    by (simp add: getBodyMassProperties_realized)
qed

theorem calcBodyMassPropertiesInBody_same_body_witness:
  "Instance \<le> getStage exStateInstance \<and> 1 < getNBodies exMatter \<and> (0::nat) \<noteq> 1
   \<and> getStage exStateInstance < Position
   \<and> calcBodyMassPropertiesInBody exMatter exStateInstance 1 1
        = Inr (MassProperties 3 (Vec3 1 0 0) identity33)
   \<and> calcBodyMassPropertiesInBody exMatter exStateInstance 1 0
        = Inl (StageViolation Position Instance)"
proof -
  have h1: "Instance \<le> getStage exStateInstance" and h2: "1 < getNBodies exMatter"
    and h3: "getStage exStateInstance < Position"
    by (simp_all add: exStateInstance_def ex_defs)
  note T = calcBodyMassPropertiesInBody_same_body [where m = exMatter and s = exStateInstance
      and objectBodyA = 1 and inBodyB = 0]
  from T [THEN conjunct2, THEN conjunct1] h1 h2
  have "calcBodyMassPropertiesInBody exMatter exStateInstance 1 1
      = Inr (MassProperties 3 (Vec3 1 0 0) identity33)"
    by (simp add: exStateInstance_def exState_def)
  moreover from T [THEN conjunct2, THEN conjunct2] h1 h2 h3
  have "calcBodyMassPropertiesInBody exMatter exStateInstance 1 0
      = Inl (StageViolation Position Instance)"
    by (simp add: exStateInstance_def exState_def getStage_def)
  ultimately show ?thesis using h1 h2 h3 by simp
qed


section \<open>Force accumulators\<close>

text \<open>
  Claim C8. Whatever the sizes and contents of the three arrays passed in,
  \<^verbatim>\<open>resetForces\<close> leaves the body forces with \<open>getNBodies\<close> entries, the particle forces
  with \<open>getNParticles\<close> entries and the mobility forces with \<open>getNMobilities\<close> entries, all
  zero. The sizes depend on the body tree only.
\<close>

theorem resetForces_sizes_zero:
  "resetForces m junkB junkP junkM bodyForces particleForces mobilityForces =
     (replicate (getNBodies m) zeroSpatialVec,
      replicate (getNParticles m) zeroVec3,
      replicate (getNMobilities m) 0)"
  by (simp add: resetForces_def setToZero_def resize_def map_replicate_const min_def
      replicate_add [symmetric])


section \<open>Invalidation and realization\<close>

declare advanceTo.simps [simp del]

lemma realized_realizeStage: "realized (realizeStage h g s) = g"
  by (cases g) (simp_all add: realizeStage_def)

lemma stage_succ_le: "g < target \<Longrightarrow> stage_succ g \<le> target"
  by (cases g; cases target; simp add: less_Stage_def less_eq_Stage_def)

lemma realized_advanceTo: "realized (advanceTo h s target) = max (realized s) target"
proof (induction h s target rule: advanceTo.induct)
  case (1 h s target)
  show ?case
  proof (cases "realized s < target")
    case True
    then have "realized (advanceTo h s target)
        = max (realized (realizeStage h (stage_succ (realized s)) s)) target"
      using "1.IH" by (subst advanceTo.simps) simp
    also have "\<dots> = target"
      using True by (simp add: realized_realizeStage stage_succ_le max_def)
    finally show ?thesis using True by (simp add: max_def less_imp_le)
  next
    case False
    then show ?thesis by (subst advanceTo.simps) (simp add: max_def)
  qed
qed

lemma advanceTo_done: "target \<le> realized s \<Longrightarrow> advanceTo h s target = s"
  by (subst advanceTo.simps) (simp add: not_less)

lemma advanceTo_one_step:
  "stage_succ (realized s) = target \<Longrightarrow> realized s < target \<Longrightarrow>
     advanceTo h s target = realizeStage h target s"
  by (subst advanceTo.simps) (simp add: advanceTo_done realized_realizeStage)

lemma realized_invalidate: "realized (invalidate s g) = min (realized s) (stage_pred g)"
  by (simp add: invalidate_def)

lemma realized_updQ: "realized (updQ s q') = min (realized s) Time"
  by (simp add: updQ_def invalidate_def)

lemma realized_updU: "realized (updU s u') = min (realized s) Position"
  by (simp add: updU_def invalidate_def)

lemma updQ_below_Position: "getStage (updQ s q') < Position"
  by (simp add: getStage_def realized_updQ min_def less_Stage_def less_eq_Stage_def)

lemma realized_correctQ: "realized (correctQ h s) = Position"
  by (simp add: correctQ_def realized_advanceTo realized_updQ max_def min_def less_eq_Stage_def)

lemma realized_correctU: "Position \<le> realized s \<Longrightarrow> realized (correctU h s) = Velocity"
  by (simp add: correctU_def realized_advanceTo realized_updU max_def min_def less_eq_Stage_def)

lemma correctQ_eval:
  "Position \<le> realized s \<Longrightarrow>
     correctQ h s = realizeStage h Position (updQ s (vec_add (qvec s) (qCorrection h s)))"
  by (simp add: correctQ_def advanceTo_one_step realized_updQ min_def less_eq_Stage_def less_Stage_def)

lemma calcQConstraintNorm_realized:
  "Position \<le> getStage s \<Longrightarrow> calcQConstraintNorm s = Inr (qNorm s)"
  by (simp add: calcQConstraintNorm_def stageCheck_def not_less [symmetric])

lemma calcUConstraintNorm_realized:
  "Velocity \<le> getStage s \<Longrightarrow> calcUConstraintNorm s = Inr (uNorm s)"
  by (simp add: calcUConstraintNorm_def stageCheck_def not_less [symmetric])


text \<open>
  Claim C2. Setting a mobilizer coordinate succeeds on a state realized to Model or above for
  a body and a mobility index of the tree; it overwrites that entry of q, leaves the cache
  arrays as they were, and lowers the realized stage strictly below Position. Every read
  of a Position-stage quantity on the resulting state is then a stage violation that names
  Position and the actual stage. A read returns a value or an error and no state, so it
  cannot recompute the cache; only \<^verbatim>\<open>advanceTo\<close> brings the state back to Position.
\<close>

theorem setMobilizerQ_invalidates_Position:
  assumes "Model \<le> getStage s" and "b < getNBodies m" and "i < nq (bodies m ! b)"
  shows "\<exists>s'. setMobilizerQ m s b i v = Inr s'
     \<and> qvec s' = (qvec s)[qStart m b + i := v]
     \<and> getStage s' < Position
     \<and> getStage s' = min (getStage s) Time
     \<and> bodyPosition s' = bodyPosition s \<and> qErr s' = qErr s
     \<and> getBodyPosition m s' b' = Inl (StageViolation Position (getStage s'))
     \<and> getBodyRotation m s' b' = Inl (StageViolation Position (getStage s'))
     \<and> getBodyLocation m s' b' = Inl (StageViolation Position (getStage s'))
     \<and> calcStationLocation m s' b' p = Inl (StageViolation Position (getStage s'))
     \<and> calcQConstraintNorm s' = Inl (StageViolation Position (getStage s'))
     \<and> getStage (advanceTo h s' Position) = Position"
proof -
  let ?s' = "updQ s ((qvec s)[qStart m b + i := v])"
  have set: "setMobilizerQ m s b i v = Inr ?s'"
    using assms by (simp add: setMobilizerQ_def stageCheck_def bodyCheck_def not_less [symmetric])
  have below: "getStage ?s' < Position"
    by (rule updQ_below_Position)
  then have reads: "getBodyPosition m ?s' b' = Inl (StageViolation Position (getStage ?s'))"
    by (rule getBodyPosition_below)
  have cache: "bodyPosition ?s' = bodyPosition s" "qErr ?s' = qErr s"
    "qvec ?s' = (qvec s)[qStart m b + i := v]" "getStage ?s' = min (getStage s) Time"
    by (simp_all add: updQ_def invalidate_def getStage_def)
  have norm: "calcQConstraintNorm ?s' = Inl (StageViolation Position (getStage ?s'))"
    using below by (simp add: calcQConstraintNorm_def stageCheck_def)
  have adv: "getStage (advanceTo h ?s' Position) = Position"
    using below by (simp add: getStage_def realized_advanceTo max_def less_imp_le)
  from set below reads cache norm adv show ?thesis
    by (simp add: getBodyRotation_def getBodyLocation_def calcStationLocation_def)
qed

theorem setMobilizerQ_invalidates_Position_witness:
  "Model \<le> getStage exState \<and> 1 < getNBodies exMatter \<and> 0 < nq (bodies exMatter ! 1)
   \<and> getBodyPosition exMatter exState 1 = Inr (Transform quarterTurn (Vec3 1 2 3))
   \<and> setMobilizerQ exMatter exState 1 0 (1/2) = Inr (exState\<lparr>realized := Time, qvec := [1/2]\<rparr>)
   \<and> getBodyPosition exMatter (exState\<lparr>realized := Time, qvec := [1/2]\<rparr>) 1
        = Inl (StageViolation Position Time)"
proof -
  have h1: "Model \<le> getStage exState" and h2: "1 < getNBodies exMatter"
    and h3: "0 < nq (bodies exMatter ! 1)"
    by (simp_all add: ex_defs)
  from setMobilizerQ_invalidates_Position [OF h1 h2 h3, where v = "1/2" and b' = 1]
  obtain s' where s': "setMobilizerQ exMatter exState 1 0 (1/2) = Inr s'"
    and v: "getBodyPosition exMatter s' 1 = Inl (StageViolation Position (getStage s'))"
    by blast
  have val: "setMobilizerQ exMatter exState 1 0 (1/2) = Inr (exState\<lparr>realized := Time, qvec := [1/2]\<rparr>)"
    by (simp add: setMobilizerQ_def stageCheck_def bodyCheck_def updQ_def invalidate_def qStart_def
        ex_defs min_def)
  with s' have "s' = exState\<lparr>realized := Time, qvec := [1/2]\<rparr>" by simp
  with v have "getBodyPosition exMatter (exState\<lparr>realized := Time, qvec := [1/2]\<rparr>) 1
        = Inl (StageViolation Position Time)"
    by (simp add: getStage_def)
  moreover have "getBodyPosition exMatter exState 1 = Inr (Transform quarterTurn (Vec3 1 2 3))"
    by (simp add: getBodyPosition_realized h2 ex_defs)
  ultimately show ?thesis using h1 h2 h3 val by simp
qed


section \<open>The projection loop\<close>

lemma wState_putState: "wState (putState s w) = s"
  by (simp add: putState_def)

lemma better_le: "nrm (better nrm best cur) \<le> nrm best" "nrm (better nrm best cur) \<le> nrm cur"
  by (simp_all add: better_def)

lemma better_cases: "better nrm best cur = best \<or> better nrm best cur = cur"
  by (simp add: better_def)

lemma projectLoop_best:
  assumes "\<forall>k\<le>n. tol < nrm ((step ^^ k) (wState w))"
  shows "nrm (wState (projectLoop nrm step tol n best w)) \<le> nrm best
    \<and> (\<forall>k\<le>n. nrm (wState (projectLoop nrm step tol n best w)) \<le> nrm ((step ^^ k) (wState w)))
    \<and> (wState (projectLoop nrm step tol n best w) = best
       \<or> (\<exists>k\<le>n. wState (projectLoop nrm step tol n best w) = (step ^^ k) (wState w)))"
  using assms
proof (induction n arbitrary: best w)
  case 0
  then show ?case by (auto simp: wState_putState)
next
  case (Suc n)
  let ?cur = "wState w"
  let ?w' = "putState (step ?cur) w"
  let ?b' = "better nrm best ?cur"
  let ?r = "wState (projectLoop nrm step tol n ?b' ?w')"
  from Suc.prems have cur: "tol < nrm ?cur" by (metis funpow_0 le0)
  have shift: "(step ^^ k) (wState ?w') = (step ^^ Suc k) ?cur" for k
    by (simp add: wState_putState funpow_swap1)
  from Suc.prems have "\<forall>k\<le>n. tol < nrm ((step ^^ k) (wState ?w'))"
    unfolding shift by (metis Suc_le_mono)
  from Suc.IH [OF this, of ?b']
  have a: "nrm ?r \<le> nrm ?b'"
    and b: "\<forall>k\<le>n. nrm ?r \<le> nrm ((step ^^ Suc k) ?cur)"
    and c: "?r = ?b' \<or> (\<exists>k\<le>n. ?r = (step ^^ Suc k) ?cur)"
    unfolding shift by blast+
  have res: "wState (projectLoop nrm step tol (Suc n) best w) = ?r"
    using cur by simp
  from a have r1: "nrm ?r \<le> nrm best" and r0: "nrm ?r \<le> nrm ?cur"
    using better_le [of nrm best ?cur] by linarith+
  have r2: "nrm ?r \<le> nrm ((step ^^ k) ?cur)" if "k \<le> Suc n" for k
  proof (cases k)
    case 0
    with r0 show ?thesis by simp
  next
    case (Suc j)
    with that b show ?thesis by simp
  qed
  have r3: "?r = best \<or> (\<exists>k\<le>Suc n. ?r = (step ^^ k) ?cur)"
  proof -
    from c consider "?r = best" | "?r = ?cur" | "\<exists>k\<le>n. ?r = (step ^^ Suc k) ?cur"
      using better_cases [of nrm best ?cur] by metis
    then show ?thesis
    proof cases
      case 1
      then show ?thesis by simp
    next
      case 2
      then have "?r = (step ^^ 0) ?cur" by simp
      then show ?thesis by blast
    next
      case 3
      then obtain k where "k \<le> n" "?r = (step ^^ Suc k) ?cur" by blast
      then have "Suc k \<le> Suc n" "?r = (step ^^ Suc k) ?cur" by simp_all
      then show ?thesis by blast
    qed
  qed
  from r1 r2 r3 show ?case unfolding res by blast
qed

lemma projectLoop_invariant:
  assumes "P best" and "P (wState w)" and "\<And>x. P x \<Longrightarrow> P (step x)"
  shows "P (wState (projectLoop nrm step tol n best w))"
  using assms(1,2)
proof (induction n arbitrary: best w)
  case 0
  then show ?case by (simp add: wState_putState)
next
  case (Suc n)
  have "P (better nrm best (wState w))"
    using Suc.prems by (simp add: better_def)
  moreover have "P (wState (putState (step (wState w)) w))"
    using Suc.prems(2) assms(3) by (simp add: wState_putState)
  ultimately have "P (wState (projectLoop nrm step tol n (better nrm best (wState w))
      (putState (step (wState w)) w)))"
    by (rule Suc.IH)
  with Suc.prems(2) show ?case by simp
qed

lemma projectConstraints_early:
  "g \<le> realized (wState w) \<Longrightarrow> nrm (wState w) \<le> targetTol \<Longrightarrow>
     projectConstraints g nrm step proj cap tol targetTol w = Inr (False, w)"
  by (simp add: projectConstraints_def not_less [symmetric])

lemma projectConstraints_corrects:
  assumes "g \<le> realized (wState w)" and "targetTol < nrm (wState w)"
  shows "\<exists>w'. projectConstraints g nrm step proj cap tol targetTol w = Inr (True, w')
     \<and> wLog w' \<noteq> []
     \<and> wState w' = invalidate (wState (projectLoop nrm step tol (cap - 1) (wState w)
           (putState (step (wState w)) w))) (stage_succ g)"
  using assms
  by (simp add: projectConstraints_def Let_def not_less [symmetric] putState_def putYErr_def)

lemma projectConstraints_total:
  assumes "g \<le> realized (wState w)"
  shows "\<exists>b w'. projectConstraints g nrm step proj cap tol targetTol w = Inr (b, w')
     \<and> (b \<longleftrightarrow> targetTol < nrm (wState w))
     \<and> (\<not> b \<longrightarrow> w' = w)
     \<and> (b \<longrightarrow> wLog w' \<noteq> [])"
proof (cases "nrm (wState w) \<le> targetTol")
  case True
  with assms show ?thesis by (auto simp: projectConstraints_early)
next
  case False
  with projectConstraints_corrects [OF assms, of targetTol nrm step proj cap tol]
  show ?thesis by auto
qed

lemma qNorm_invalidate: "qNorm (invalidate s g) = qNorm s"
  by (simp add: qNorm_def invalidate_def)

lemma uNorm_invalidate: "uNorm (invalidate s g) = uNorm s"
  by (simp add: uNorm_def invalidate_def)

lemma kept_nonconverged:
  assumes "\<forall>k\<le>Suc n. tol < nrm ((step ^^ k) s)"
  shows "tol < nrm (wState (projectLoop nrm step tol n s (putState (step s) w)))
    \<and> (\<forall>k\<le>Suc n. nrm (wState (projectLoop nrm step tol n s (putState (step s) w)))
          \<le> nrm ((step ^^ k) s))
    \<and> (\<exists>k\<le>Suc n. wState (projectLoop nrm step tol n s (putState (step s) w)) = (step ^^ k) s)"
proof -
  let ?K = "wState (projectLoop nrm step tol n s (putState (step s) w))"
  have shift: "(step ^^ k) (wState (putState (step s) w)) = (step ^^ Suc k) s" for k
    by (simp add: wState_putState funpow_swap1)
  from assms have "\<forall>k\<le>n. tol < nrm ((step ^^ k) (wState (putState (step s) w)))"
    unfolding shift by (metis Suc_le_mono)
  from projectLoop_best [OF this, of s]
  have a: "nrm ?K \<le> nrm s"
    and b: "\<forall>k\<le>n. nrm ?K \<le> nrm ((step ^^ Suc k) s)"
    and c: "?K = s \<or> (\<exists>k\<le>n. ?K = (step ^^ Suc k) s)"
    unfolding shift by blast+
  have le: "nrm ?K \<le> nrm ((step ^^ k) s)" if "k \<le> Suc n" for k
  proof (cases k)
    case 0
    with a show ?thesis by simp
  next
    case (Suc j)
    with that b show ?thesis by simp
  qed
  have mem: "\<exists>k\<le>Suc n. ?K = (step ^^ k) s"
  proof -
    from c consider "?K = (step ^^ 0) s" | "\<exists>k\<le>n. ?K = (step ^^ Suc k) s"
      by auto
    then show ?thesis
    proof cases
      case 1
      then show ?thesis by blast
    next
      case 2
      then obtain k where "Suc k \<le> Suc n" "?K = (step ^^ Suc k) s" by auto
      then show ?thesis by blast
    qed
  qed
  from mem obtain k where "k \<le> Suc n" "?K = (step ^^ k) s" by blast
  with assms have "tol < nrm ?K" by metis
  with le mem show ?thesis by blast
qed

lemma Suc_cap: "Suc (cap - 1) = max 1 cap"
  by (cases cap) simp_all

lemma stage_after_projectQ:
  assumes "Position \<le> realized s"
  shows "Position \<le> realized (wState (projectLoop qNorm (correctQ h) tol n s
           (putState (correctQ h s) w)))"
  using assms
  by (intro projectLoop_invariant [where P = "\<lambda>x. Position \<le> realized x"])
     (simp_all add: wState_putState realized_correctQ)

lemma stage_after_projectU:
  assumes "Velocity \<le> realized s"
  shows "Velocity \<le> realized (wState (projectLoop uNorm (correctU h) tol n s
           (putState (correctU h s) w)))"
  using assms
  by (intro projectLoop_invariant [where P = "\<lambda>x. Velocity \<le> realized x"])
     (simp_all add: wState_putState realized_correctU Velocity_imp_Position)

lemma wState_initWorld [simp]: "wState (initWorld s y) = s"
  and wYErr_initWorld [simp]: "wYErr (initWorld s y) = y"
  and wLog_initWorld [simp]: "wLog (initWorld s y) = []"
  by (simp_all add: initWorld_def)

lemma projectQConstraints_stage:
  assumes "Position \<le> realized s" and "projectQConstraints h s y tol targetTol = Inr (b, w)"
  shows "Position \<le> realized (wState w)"
proof (cases "qNorm s \<le> targetTol")
  case True
  with assms show ?thesis
    by (auto simp: projectQConstraints_def projectConstraints_early)
next
  case False
  with assms(1) projectConstraints_corrects [of Position "initWorld s y" targetTol qNorm
      "correctQ h" "qProjection h" "iterationCap h" tol]
  obtain w' where "projectQConstraints h s y tol targetTol = Inr (True, w')"
    and "wState w' = invalidate (wState (projectLoop qNorm (correctQ h) tol (iterationCap h - 1) s
           (putState (correctQ h s) (initWorld s y)))) Velocity"
    by (auto simp: projectQConstraints_def)
  with assms(2) stage_after_projectQ [OF assms(1), of h tol "iterationCap h - 1" "initWorld s y"]
  show ?thesis by (simp add: realized_invalidate)
qed

lemma projectUConstraints_stage:
  assumes "Velocity \<le> realized s" and "projectUConstraints h s y tol targetTol = Inr (b, w)"
  shows "Velocity \<le> realized (wState w)"
proof (cases "uNorm s \<le> targetTol")
  case True
  with assms show ?thesis
    by (auto simp: projectUConstraints_def projectConstraints_early)
next
  case False
  with assms(1) projectConstraints_corrects [of Velocity "initWorld s y" targetTol uNorm
      "correctU h" "uProjection h" 1 tol]
  obtain w' where "projectUConstraints h s y tol targetTol = Inr (True, w')"
    and "wState w' = invalidate (wState (projectLoop uNorm (correctU h) tol 0 s
           (putState (correctU h s) (initWorld s y)))) Dynamics"
    by (auto simp: projectUConstraints_def)
  with assms(2) stage_after_projectU [OF assms(1), of h tol 0 "initWorld s y"]
  show ?thesis by (simp add: realized_invalidate)
qed

lemma projectQConstraints_flag:
  assumes "Position \<le> getStage s"
  shows "(qNorm s \<le> targetTol \<longrightarrow>
            projectQConstraints h s y_err tol targetTol = Inr (False, initWorld s y_err))
     \<and> (\<exists>b w. projectQConstraints h s y_err tol targetTol = Inr (b, w)
            \<and> (b \<longleftrightarrow> wLog w \<noteq> [])
            \<and> (\<not> b \<longrightarrow> wState w = s \<and> wYErr w = y_err)
            \<and> (b \<longleftrightarrow> targetTol < qNorm s))"
proof -
  from assms have st: "Position \<le> realized (wState (initWorld s y_err))"
    by (simp add: getStage_def)
  from projectConstraints_total [OF st, where nrm = qNorm and step = "correctQ h"
      and proj = "qProjection h" and cap = "iterationCap h" and tol = tol and targetTol = targetTol]
  obtain b w where "projectQConstraints h s y_err tol targetTol = Inr (b, w)"
    and "b \<longleftrightarrow> targetTol < qNorm s" and "\<not> b \<longrightarrow> w = initWorld s y_err"
    and "b \<longrightarrow> wLog w \<noteq> []"
    by (auto simp: projectQConstraints_def)
  then have "projectQConstraints h s y_err tol targetTol = Inr (b, w)
      \<and> (b \<longleftrightarrow> wLog w \<noteq> []) \<and> (\<not> b \<longrightarrow> wState w = s \<and> wYErr w = y_err)
      \<and> (b \<longleftrightarrow> targetTol < qNorm s)"
    by auto
  moreover have "qNorm s \<le> targetTol \<longrightarrow>
      projectQConstraints h s y_err tol targetTol = Inr (False, initWorld s y_err)"
    using st by (simp add: projectQConstraints_def projectConstraints_early)
  ultimately show ?thesis by blast
qed

lemma projectUConstraints_flag:
  assumes "Velocity \<le> getStage s"
  shows "(uNorm s \<le> targetTol \<longrightarrow>
            projectUConstraints h s y_err tol targetTol = Inr (False, initWorld s y_err))
     \<and> (\<exists>b w. projectUConstraints h s y_err tol targetTol = Inr (b, w)
            \<and> (b \<longleftrightarrow> wLog w \<noteq> [])
            \<and> (\<not> b \<longrightarrow> wState w = s \<and> wYErr w = y_err)
            \<and> (b \<longleftrightarrow> targetTol < uNorm s))"
proof -
  from assms have st: "Velocity \<le> realized (wState (initWorld s y_err))"
    by (simp add: getStage_def)
  from projectConstraints_total [OF st, where nrm = uNorm and step = "correctU h"
      and proj = "uProjection h" and cap = 1 and tol = tol and targetTol = targetTol]
  obtain b w where "projectUConstraints h s y_err tol targetTol = Inr (b, w)"
    and "b \<longleftrightarrow> targetTol < uNorm s" and "\<not> b \<longrightarrow> w = initWorld s y_err"
    and "b \<longrightarrow> wLog w \<noteq> []"
    by (auto simp: projectUConstraints_def)
  then have "projectUConstraints h s y_err tol targetTol = Inr (b, w)
      \<and> (b \<longleftrightarrow> wLog w \<noteq> []) \<and> (\<not> b \<longrightarrow> wState w = s \<and> wYErr w = y_err)
      \<and> (b \<longleftrightarrow> targetTol < uNorm s)"
    by auto
  moreover have "uNorm s \<le> targetTol \<longrightarrow>
      projectUConstraints h s y_err tol targetTol = Inr (False, initWorld s y_err)"
    using st by (simp add: projectUConstraints_def projectConstraints_early)
  ultimately show ?thesis by blast
qed

lemma projectQConstraints_nonconverged:
  assumes st: "Position \<le> getStage s" and go: "targetTol < qNorm s"
    and non: "\<forall>k\<le>max 1 (iterationCap h). tol < qNorm ((correctQ h ^^ k) s)"
  shows "\<exists>w. projectQConstraints h s y_err tol targetTol = Inr (True, w)
     \<and> tol < qNorm (wState w)
     \<and> (\<forall>k\<le>max 1 (iterationCap h). qNorm (wState w) \<le> qNorm ((correctQ h ^^ k) s))
     \<and> (\<exists>k\<le>max 1 (iterationCap h). wState w = invalidate ((correctQ h ^^ k) s) Velocity)"
proof -
  let ?K = "wState (projectLoop qNorm (correctQ h) tol (iterationCap h - 1) s
      (putState (correctQ h s) (initWorld s y_err)))"
  from st go projectConstraints_corrects [where g = Position and w = "initWorld s y_err"
      and targetTol = targetTol and nrm = qNorm and step = "correctQ h" and proj = "qProjection h"
      and cap = "iterationCap h" and tol = tol]
  obtain w where w: "projectQConstraints h s y_err tol targetTol = Inr (True, w)"
    "wState w = invalidate ?K Velocity"
    by (auto simp: projectQConstraints_def getStage_def)
  from non have "\<forall>k\<le>Suc (iterationCap h - 1). tol < qNorm ((correctQ h ^^ k) s)"
    by (simp only: Suc_cap)
  from kept_nonconverged [OF this, where w = "initWorld s y_err"]
  have "tol < qNorm ?K
    \<and> (\<forall>k\<le>max 1 (iterationCap h). qNorm ?K \<le> qNorm ((correctQ h ^^ k) s))
    \<and> (\<exists>k\<le>max 1 (iterationCap h). ?K = (correctQ h ^^ k) s)"
    unfolding Suc_cap .
  with w show ?thesis
    by (auto simp: qNorm_invalidate simp del: projectLoop.simps)
qed

lemma projectUConstraints_nonconverged:
  assumes st: "Velocity \<le> getStage s" and go: "targetTol < uNorm s"
    and non: "\<forall>k\<le>1. tol < uNorm ((correctU h ^^ k) s)"
  shows "\<exists>w. projectUConstraints h s y_err tol targetTol = Inr (True, w)
     \<and> tol < uNorm (wState w)
     \<and> (\<forall>k\<le>1. uNorm (wState w) \<le> uNorm ((correctU h ^^ k) s))
     \<and> (\<exists>k\<le>1. wState w = invalidate ((correctU h ^^ k) s) Dynamics)"
proof -
  let ?K = "wState (projectLoop uNorm (correctU h) tol 0 s
      (putState (correctU h s) (initWorld s y_err)))"
  from st go projectConstraints_corrects [where g = Velocity and w = "initWorld s y_err"
      and targetTol = targetTol and nrm = uNorm and step = "correctU h" and proj = "uProjection h"
      and cap = 1 and tol = tol]
  obtain w where w: "projectUConstraints h s y_err tol targetTol = Inr (True, w)"
    "wState w = invalidate ?K Dynamics"
    by (auto simp: projectUConstraints_def getStage_def)
  from non have "\<forall>k\<le>Suc 0. tol < uNorm ((correctU h ^^ k) s)"
    by (simp only: One_nat_def)
  from kept_nonconverged [OF this, where w = "initWorld s y_err"]
  have "tol < uNorm ?K
    \<and> (\<forall>k\<le>1. uNorm ?K \<le> uNorm ((correctU h ^^ k) s))
    \<and> (\<exists>k\<le>1. ?K = (correctU h ^^ k) s)"
    unfolding One_nat_def .
  with w show ?thesis
    by (auto simp: uNorm_invalidate simp del: projectLoop.simps)
qed

lemma projectQConstraints_returns:
  assumes "Position \<le> getStage s"
  shows "\<exists>b w. projectQConstraints h s y_err tol targetTol = Inr (b, w)
     \<and> calcQConstraintNorm (wState w) = Inr (qNorm (wState w))"
proof -
  from projectQConstraints_flag [OF assms, where h = h and y_err = y_err and tol = tol
      and targetTol = targetTol]
  obtain b w where r: "projectQConstraints h s y_err tol targetTol = Inr (b, w)"
    by blast
  with assms have "Position \<le> getStage (wState w)"
    by (simp add: getStage_def projectQConstraints_stage)
  with r show ?thesis
    by (simp add: calcQConstraintNorm_realized)
qed

lemma projectUConstraints_returns:
  assumes "Velocity \<le> getStage s"
  shows "\<exists>b w. projectUConstraints h s y_err tol targetTol = Inr (b, w)
     \<and> calcUConstraintNorm (wState w) = Inr (uNorm (wState w))"
proof -
  from projectUConstraints_flag [OF assms, where h = h and y_err = y_err and tol = tol
      and targetTol = targetTol]
  obtain b w where r: "projectUConstraints h s y_err tol targetTol = Inr (b, w)"
    by blast
  with assms have "Velocity \<le> getStage (wState w)"
    by (simp add: getStage_def projectUConstraints_stage)
  with r show ?thesis
    by (simp add: calcUConstraintNorm_realized)
qed


section \<open>The cubic constraint, evaluated\<close>

lemma weightedNorm_single: "weightedNorm [e] [1] = \<bar>e\<bar>"
  by (simp add: weightedNorm_def)

lemma qNorm_cubicState: "qNorm (cubicState g x v) = \<bar>cubicErr x\<bar>"
  by (simp add: qNorm_def cubicState_def weightedNorm_single)

lemma uNorm_cubicState: "uNorm (cubicState g x v) = \<bar>v - 5\<bar>"
  by (simp add: uNorm_def cubicState_def weightedNorm_single)

lemma realized_cubicState: "realized (cubicState g x v) = g"
  by (simp add: cubicState_def)

lemma correctQ_cubicState:
  "Position \<le> g \<Longrightarrow> correctQ cubicHooks (cubicState g x v)
     = cubicState Position (x + - cubicErr x / cubicSlope x) v"
  by (simp add: correctQ_eval realized_cubicState)
     (simp add: cubicState_def cubicHooks_def realizeStage_def updQ_def invalidate_def firstOf_def)

lemma correctU_cubicState:
  "Velocity \<le> g \<Longrightarrow> correctU cubicHooks (cubicState g x v)
     = cubicState Velocity x (v + - (v - 5) / 2)"
  apply (simp add: correctU_def)
  apply (subst advanceTo_one_step)
    apply (simp_all add: realized_updU realized_cubicState min_def Velocity_imp_Position)
    apply (simp_all add: less_Stage_def less_eq_Stage_def)
  apply (simp add: cubicState_def cubicHooks_def realizeStage_def updU_def invalidate_def firstOf_def)
  done

lemma invalidate_cubicState: "invalidate (cubicState g x v) g' = cubicState (min g (stage_pred g')) x v"
  by (simp add: cubicState_def invalidate_def)

lemma cubic_values: "cubicErr 0 = 2" "cubicErr 1 = 1" "cubicSlope 0 = - 2" "cubicSlope 1 = 1"
  by (simp_all add: cubicErr_def cubicSlope_def)

lemma stage_facts:
  "Position \<le> Velocity" "Position \<le> Position" "Velocity \<le> Velocity" "\<not> Velocity < Position"
  "\<not> Position < Position" "\<not> Velocity < Velocity" "min Position Position = Position"
  "min Velocity Position = Position" "min Velocity Velocity = Velocity" "min Position Velocity = Position"
  by (simp_all add: less_eq_Stage_def less_Stage_def min_def)

lemma cubicHooks_fields:
  "iterationCap cubicHooks = 2" "qProjection cubicHooks s y = map (\<lambda>_. 0) y"
  "uProjection cubicHooks s y = map (\<lambda>_. 0) y"
  by (simp_all add: cubicHooks_def)

lemma ex_projectQ_nonconv:
  "projectQConstraints cubicHooks (cubicState Velocity 0 1) [7] (1/2) (1/4)
     = Inr (True, worldAfter (cubicState Position 1 1) [0]
         [StateWrite (cubicState Position 1 1), StateWrite (cubicState Position 0 1),
          StateWrite (cubicState Position 1 1), YErrWrite [0], StateWrite (cubicState Position 1 1)])"
  by (simp add: projectQConstraints_def projectConstraints_def initWorld_def Let_def
      realized_cubicState qNorm_cubicState cubic_values stage_facts correctQ_cubicState
      putState_def putYErr_def invalidate_cubicState worldAfter_def cubicHooks_fields better_def)

lemma ex_projectU_nonconv:
  "projectUConstraints cubicHooks (cubicState Velocity 0 1) [7] (1/2) (1/4)
     = Inr (True, worldAfter (cubicState Velocity 0 3) [0] (cubicWrites (cubicState Velocity 0 3)))"
  by (simp add: projectUConstraints_def projectConstraints_def initWorld_def Let_def
      realized_cubicState uNorm_cubicState stage_facts correctU_cubicState cubicWrites_def
      putState_def putYErr_def invalidate_cubicState worldAfter_def cubicHooks_fields)

lemma upto_two: "k \<le> 2 \<Longrightarrow> k = 0 \<or> k = 1 \<or> k = (2::nat)"
  by arith

lemma upto_one: "k \<le> 1 \<Longrightarrow> k = 0 \<or> k = (1::nat)"
  by arith

lemma funpow_two: "(f ^^ 2) x = f (f x)"
  by (simp add: numeral_2_eq_2)


section \<open>The contract of the projector\<close>

text \<open>
  Claim C3. On a state realized to Position (resp. Velocity) the projector returns a result
  and never an error, and the residual norm can be read from the state it leaves. When the
  early exit is not taken and every iterate up to the cap, the state at entry included, has a
  norm above \<open>tol\<close>, the call returns true, the state it leaves is one of these iterates
  (with the stage lowered), its norm is the least among them, and that norm is above
  \<open>tol\<close>.
\<close>

theorem project_nonconvergence_not_thrown:
  "(Position \<le> getStage s \<longrightarrow>
      (\<exists>b w. projectQConstraints h s y_err tol targetTol = Inr (b, w)
         \<and> calcQConstraintNorm (wState w) = Inr (qNorm (wState w)))
      \<and> (targetTol < qNorm s
           \<and> (\<forall>k\<le>max 1 (iterationCap h). tol < qNorm ((correctQ h ^^ k) s)) \<longrightarrow>
          (\<exists>w. projectQConstraints h s y_err tol targetTol = Inr (True, w)
             \<and> tol < qNorm (wState w)
             \<and> (\<forall>k\<le>max 1 (iterationCap h). qNorm (wState w) \<le> qNorm ((correctQ h ^^ k) s))
             \<and> (\<exists>k\<le>max 1 (iterationCap h).
                   wState w = invalidate ((correctQ h ^^ k) s) Velocity))))
   \<and> (Velocity \<le> getStage s \<longrightarrow>
      (\<exists>b w. projectUConstraints h s y_err tol targetTol = Inr (b, w)
         \<and> calcUConstraintNorm (wState w) = Inr (uNorm (wState w)))
      \<and> (targetTol < uNorm s \<and> (\<forall>k\<le>1. tol < uNorm ((correctU h ^^ k) s)) \<longrightarrow>
          (\<exists>w. projectUConstraints h s y_err tol targetTol = Inr (True, w)
             \<and> tol < uNorm (wState w)
             \<and> (\<forall>k\<le>1. uNorm (wState w) \<le> uNorm ((correctU h ^^ k) s))
             \<and> (\<exists>k\<le>1. wState w = invalidate ((correctU h ^^ k) s) Dynamics))))"
  using projectQConstraints_returns [where s = s and h = h and y_err = y_err and tol = tol
      and targetTol = targetTol]
    projectUConstraints_returns [where s = s and h = h and y_err = y_err and tol = tol
      and targetTol = targetTol]
    projectQConstraints_nonconverged [where s = s and h = h and y_err = y_err and tol = tol
      and targetTol = targetTol]
    projectUConstraints_nonconverged [where s = s and h = h and y_err = y_err and tol = tol
      and targetTol = targetTol]
  by blast

theorem project_nonconvergence_not_thrown_witness:
  "Position \<le> getStage (cubicState Velocity 0 1)
   \<and> Velocity \<le> getStage (cubicState Velocity 0 1)
   \<and> 1/4 < qNorm (cubicState Velocity 0 1)
   \<and> 1/2 < qNorm (cubicState Velocity 0 1)
   \<and> 1/2 < qNorm (correctQ cubicHooks (cubicState Velocity 0 1))
   \<and> 1/2 < qNorm (correctQ cubicHooks (correctQ cubicHooks (cubicState Velocity 0 1)))
   \<and> 1/4 < uNorm (cubicState Velocity 0 1)
   \<and> 1/2 < uNorm (cubicState Velocity 0 1)
   \<and> 1/2 < uNorm (correctU cubicHooks (cubicState Velocity 0 1))
   \<and> projectQConstraints cubicHooks (cubicState Velocity 0 1) [7] (1/2) (1/4)
        = Inr (True, worldAfter (cubicState Position 1 1) [0]
            (StateWrite (cubicState Position 1 1) # StateWrite (cubicState Position 0 1)
               # cubicWrites (cubicState Position 1 1)))
   \<and> calcQConstraintNorm (cubicState Position 1 1) = Inr 1
   \<and> projectUConstraints cubicHooks (cubicState Velocity 0 1) [7] (1/2) (1/4)
        = Inr (True, worldAfter (cubicState Velocity 0 3) [0] (cubicWrites (cubicState Velocity 0 3)))
   \<and> calcUConstraintNorm (cubicState Velocity 0 3) = Inr 2"
proof -
  let ?s = "cubicState Velocity 0 1"
  have st: "Position \<le> getStage ?s" "Velocity \<le> getStage ?s"
    by (simp_all add: getStage_def realized_cubicState stage_facts)
  have q0: "qNorm ?s = 2" and u0: "uNorm ?s = 4"
    by (simp_all add: qNorm_cubicState uNorm_cubicState cubic_values)
  have q1: "qNorm (correctQ cubicHooks ?s) = 1"
    by (simp add: correctQ_cubicState stage_facts qNorm_cubicState cubic_values)
  have q2: "qNorm (correctQ cubicHooks (correctQ cubicHooks ?s)) = 2"
    by (simp add: correctQ_cubicState stage_facts qNorm_cubicState cubic_values)
  have u1: "uNorm (correctU cubicHooks ?s) = 2"
    by (simp add: correctU_cubicState stage_facts uNorm_cubicState)
  have nonq: "\<forall>k\<le>max 1 (iterationCap cubicHooks). 1/2 < qNorm ((correctQ cubicHooks ^^ k) ?s)"
  proof (intro allI impI)
    fix k assume "k \<le> max 1 (iterationCap cubicHooks)"
    then have "k = 0 \<or> k = 1 \<or> k = 2"
      by (intro upto_two) (simp add: cubicHooks_fields)
    with q0 q1 q2 show "1/2 < qNorm ((correctQ cubicHooks ^^ k) ?s)"
      by (auto simp: funpow_two)
  qed
  have nonu: "\<forall>k\<le>1. 1/2 < uNorm ((correctU cubicHooks ^^ k) ?s)"
  proof (intro allI impI)
    fix k :: nat assume "k \<le> 1"
    then have "k = 0 \<or> k = 1" by (rule upto_one)
    with u0 u1 show "1/2 < uNorm ((correctU cubicHooks ^^ k) ?s)"
      by auto
  qed
  note T = project_nonconvergence_not_thrown [where s = ?s and h = cubicHooks and y_err = "[7]"
      and tol = "1/2" and targetTol = "1/4"]
  have goq: "1/4 < qNorm ?s" and gou: "1/4 < uNorm ?s"
    using q0 u0 by simp_all
  note TQ = T [THEN conjunct1, THEN mp, OF st(1)]
  note TU = T [THEN conjunct2, THEN mp, OF st(2)]
  from TQ [THEN conjunct2, THEN mp, OF conjI [OF goq nonq]]
  obtain wq where wq: "projectQConstraints cubicHooks ?s [7] (1/2) (1/4) = Inr (True, wq)"
    by blast
  from TU [THEN conjunct2, THEN mp, OF conjI [OF gou nonu]]
  obtain wu where wu: "projectUConstraints cubicHooks ?s [7] (1/2) (1/4) = Inr (True, wu)"
    by blast
  from TQ [THEN conjunct1] wq
  have cq: "calcQConstraintNorm (wState wq) = Inr (qNorm (wState wq))"
    by auto
  from TU [THEN conjunct1] wu
  have cu: "calcUConstraintNorm (wState wu) = Inr (uNorm (wState wu))"
    by auto
  have eq: "projectQConstraints cubicHooks ?s [7] (1/2) (1/4)
      = Inr (True, worldAfter (cubicState Position 1 1) [0]
            (StateWrite (cubicState Position 1 1) # StateWrite (cubicState Position 0 1)
               # cubicWrites (cubicState Position 1 1)))"
    using ex_projectQ_nonconv by (simp add: cubicWrites_def)
  from wq eq have "wState wq = cubicState Position 1 1"
    by (auto simp: worldAfter_def)
  with cq have r1: "calcQConstraintNorm (cubicState Position 1 1) = Inr 1"
    by (simp add: qNorm_cubicState cubic_values)
  from wu ex_projectU_nonconv have "wState wu = cubicState Velocity 0 3"
    by (auto simp: worldAfter_def)
  with cu have r2: "calcUConstraintNorm (cubicState Velocity 0 3) = Inr 2"
    by (simp add: uNorm_cubicState)
  from st q0 q1 q2 u0 u1 eq ex_projectU_nonconv r1 r2 show ?thesis
    by simp
qed

end
